theory Spec2Isabelle
  imports Complex_Main
begin

section \<open>Errors\<close>

text \<open>
  Every \<^verbatim>\<open>assert\<close> of \<^verbatim>\<open>pytorch_forecasting/data.py\<close> is one constructor of
  \<open>assertion\<close>, in the order of the file. Exceptions raised by the libraries the module
  calls (scikit-learn, pandas, Python itself) are the other constructors of \<open>error\<close>.
\<close>

datatype assertion =
    PredictionLengthPositive
  | TargetNotKnownReal
  | DataIndexUnique
  | NoRandomizationWhenPredicting
  | WindowCoversMinPrediction
  | DecoderCoversMinPrediction
  | DecoderPositive
  | EncoderNonNegative
  | DecoderAfterMinPredictionIdx

datatype error =
    AssertionError assertion
  | ValueError
  | KeyError
  | IndexError
  | TypeError
  | RuntimeError
  | AttributeError
  | NotFittedError

text \<open>Raising stops the computation: the rest runs only on a value.\<close>

definition and_then :: "error + 'a \<Rightarrow> ('a \<Rightarrow> error + 'b) \<Rightarrow> error + 'b" where
  "and_then m f = (case m of Inl e \<Rightarrow> Inl e | Inr x \<Rightarrow> f x)"

section \<open>Python sequences\<close>

text \<open>
  Indexing with an integer wraps a negative index once and raises \<^verbatim>\<open>IndexError\<close> outside
  the sequence; a slice clamps its bounds and never raises; \<^verbatim>\<open>list.index\<close> gives the
  first position of an element.
\<close>

definition py_index :: "'a list \<Rightarrow> int \<Rightarrow> error + 'a" where
  "py_index xs i =
     (if 0 \<le> i \<and> i < int (length xs) then Inr (xs ! nat i)
      else if i < 0 \<and> - int (length xs) \<le> i then Inr (xs ! nat (int (length xs) + i))
      else Inl IndexError)"

definition norm_bound :: "nat \<Rightarrow> int \<Rightarrow> nat" where
  "norm_bound n i = (if i < 0 then nat (max 0 (int n + i)) else min n (nat i))"

definition py_slice :: "int \<Rightarrow> int \<Rightarrow> 'a list \<Rightarrow> 'a list" where
  "py_slice a b xs =
     (let lo = norm_bound (length xs) a; hi = norm_bound (length xs) b
      in take (hi - lo) (drop lo xs))"

fun index_of :: "'a \<Rightarrow> 'a list \<Rightarrow> nat option" where
  "index_of x [] = None"
| "index_of x (c # cs) =
     (if x = c then Some 0 else map_option Suc (index_of x cs))"

fun collect :: "(error + 'a) list \<Rightarrow> error + 'a list" where
  "collect [] = Inr []"
| "collect (m # ms) =
     (case m of
        Inl e \<Rightarrow> Inl e
      | Inr x \<Rightarrow> (case collect ms of Inl e \<Rightarrow> Inl e | Inr xs \<Rightarrow> Inr (x # xs)))"

section \<open>Categorical label encoding\<close>

subsection \<open>Columns and labels\<close>

text \<open>
  A column handed to an encoder is a homogeneous array: its dtype is either numeric
  (kind \<^verbatim>\<open>i\<close> or \<^verbatim>\<open>f\<close>; Python compares numbers by value, so a numeric label is a
  real number) or a string/object dtype. Floating point NaN as a data value is
  not part of the embedding; the only NaN is the token \<open>NanFloat\<close> that
  \<^verbatim>\<open>NaNLabelEncoder.fit\<close> itself puts in front of \<^verbatim>\<open>classes_\<close>.
\<close>

datatype val = Num real | Str string

datatype column = NumColumn "real list" | StrColumn "string list"

datatype cls = NanFloat | Cls val

fun values_of :: "column \<Rightarrow> val list" where
  "values_of (NumColumn xs) = map Num xs"
| "values_of (StrColumn xs) = map Str xs"

fun str_less :: "string \<Rightarrow> string \<Rightarrow> bool" where
  "str_less [] [] = False"
| "str_less [] (y # ys) = True"
| "str_less (x # xs) [] = False"
| "str_less (x # xs) (y # ys) =
     ((of_char x :: nat) < of_char y \<or> (x = y \<and> str_less xs ys))"

fun val_less :: "val \<Rightarrow> val \<Rightarrow> bool" where
  "val_less (Num a) (Num b) = (a < b)"
| "val_less (Str a) (Str b) = str_less a b"
| "val_less (Num a) (Str b) = True"
| "val_less (Str a) (Num b) = False"

subsection \<open>scikit-learn's LabelEncoder\<close>

text \<open>
  \<^verbatim>\<open>NaNLabelEncoder\<close> extends scikit-learn's \<^verbatim>\<open>LabelEncoder\<close>, which is not part of
  the repository. It is modelled by its documented contract: \<^verbatim>\<open>fit\<close> stores the sorted
  distinct labels in \<^verbatim>\<open>classes_\<close>, \<^verbatim>\<open>transform\<close> maps a label to its position in
  \<^verbatim>\<open>classes_\<close> and raises \<^verbatim>\<open>ValueError\<close> (previously unseen labels) otherwise,
  \<^verbatim>\<open>inverse_transform\<close> maps a position back to the label and raises \<^verbatim>\<open>ValueError\<close>
  for a code outside \<^verbatim>\<open>range(len(classes_))\<close>. An encoder that was never fitted has no
  \<^verbatim>\<open>classes_\<close> attribute (\<open>None\<close>).
\<close>

fun insert_sorted :: "val \<Rightarrow> val list \<Rightarrow> val list" where
  "insert_sorted x [] = [x]"
| "insert_sorted x (y # ys) =
     (if x = y then y # ys
      else if val_less x y then x # y # ys
      else y # insert_sorted x ys)"

definition np_unique :: "val list \<Rightarrow> val list" where
  "np_unique ys = foldr insert_sorted ys []"

definition LabelEncoder_fit :: "column \<Rightarrow> cls list" where
  "LabelEncoder_fit y = map Cls (np_unique (values_of y))"

fun lookup_all :: "cls list \<Rightarrow> val list \<Rightarrow> error + int list" where
  "lookup_all cs [] = Inr []"
| "lookup_all cs (v # vs) =
     (case index_of (Cls v) cs of
        None \<Rightarrow> Inl ValueError
      | Some i \<Rightarrow> (case lookup_all cs vs of
                    Inl e \<Rightarrow> Inl e
                  | Inr codes \<Rightarrow> Inr (int i # codes)))"

definition LabelEncoder_transform :: "cls list option \<Rightarrow> column \<Rightarrow> error + int list" where
  "LabelEncoder_transform classes y =
     (case classes of
        None \<Rightarrow> Inl NotFittedError
      | Some cs \<Rightarrow> lookup_all cs (values_of y))"


subsection \<open>NaNLabelEncoder\<close>

record NaNLabelEncoder =
  add_nan :: bool
  classes :: "cls list option"

definition NaNLabelEncoder_init :: "bool \<Rightarrow> NaNLabelEncoder" where
  "NaNLabelEncoder_init b = \<lparr>add_nan = b, classes = None\<rparr>"

text \<open>
  \<^verbatim>\<open>is_numeric\<close> reads the dtype kind; its second disjunct and the guard of
  \<^verbatim>\<open>encode_nans\<close> test \<^verbatim>\<open>isinstance(y, pd.CategoricalDtype)\<close> on the column itself,
  which is a Series or an array and never a dtype object.
\<close>

definition isinstance_CategoricalDtype :: "column \<Rightarrow> bool" where
  "isinstance_CategoricalDtype y = False"

fun dtype_kind_in_bcif :: "column \<Rightarrow> bool" where
  "dtype_kind_in_bcif (NumColumn xs) = True"
| "dtype_kind_in_bcif (StrColumn xs) = False"

definition is_numeric :: "column \<Rightarrow> bool" where
  "is_numeric y = (dtype_kind_in_bcif y \<or> (isinstance_CategoricalDtype y \<and> False))"

fun add_nan_category :: "column \<Rightarrow> column" where
  "add_nan_category (StrColumn xs) = StrColumn xs"
| "add_nan_category (NumColumn xs) = NumColumn xs"

definition encode_nans :: "column \<Rightarrow> column" where
  "encode_nans y =
     (if \<not> is_numeric y \<and> isinstance_CategoricalDtype y then add_nan_category y else y)"

definition fit :: "NaNLabelEncoder \<Rightarrow> column \<Rightarrow> NaNLabelEncoder" where
  "fit self y =
     (let cs = LabelEncoder_fit y in
      if add_nan self then
        let y' = encode_nans y;
            nan = (if is_numeric y' then NanFloat else Cls (Str ''nan''))
        in self\<lparr>classes := Some (nan # filter (\<lambda>c. c \<notin> set [NanFloat, Cls (Str ''nan'')]) cs)\<rparr>
      else self\<lparr>classes := Some cs\<rparr>)"

definition transform :: "NaNLabelEncoder \<Rightarrow> column \<Rightarrow> error + int list" where
  "transform self y =
     (let y' = (if add_nan self then encode_nans y else y)
      in LabelEncoder_transform (classes self) y')"


section \<open>The dataset object\<close>

text \<open>
  Objects that the module mutates in place and that several datasets can share (the list
  \<^verbatim>\<open>time_varying_known_reals\<close> and the dictionaries \<^verbatim>\<open>categoricals_encoders\<close> and
  \<^verbatim>\<open>scalers\<close>) live in a store and are held by reference. A dictionary is an association
  list in insertion order; its value \<open>None\<close> is Python's \<^verbatim>\<open>None\<close> (no encoding, no
  scaling). Fitted scalers are scikit-learn objects; they are represented by the statistics
  they were fitted to, over exact reals.
\<close>

type_synonym addr = nat

datatype scaler = MinMaxScaler real real | StandardScaler real real

record heap =
  lists :: "addr \<Rightarrow> string list"
  encoder_dicts :: "addr \<Rightarrow> (string \<times> NaNLabelEncoder option) list"
  scaler_dicts :: "addr \<Rightarrow> (string \<times> scaler option) list"

text \<open>One row of the window index built by \<^verbatim>\<open>construct_index\<close>, with the frame's row label.\<close>

record index_row =
  label :: int
  time_first :: int
  time_last :: int
  time_diff_to_next :: int
  index_start :: int
  time :: int
  count :: int
  group_id :: nat
  index_end :: int
  sequence_length :: int

text \<open>
  The keyword arguments of the constructor, which it keeps as attributes of the same
  names. \<open>min_prediction_idx\<close> is an integer where the source has \<^verbatim>\<open>None\<close> as the default:
  line 146 reads it as \<^verbatim>\<open>min_prediction_idx or data[time_idx].min()\<close>, which treats
  \<^verbatim>\<open>None\<close> and 0 alike, so 0 stands for both; in a constructed dataset the field holds
  the resolved value. \<open>randomize_length\<close> holds the two Beta concentrations.
\<close>

record kwargs =
  min_encoder_length :: int
  max_encoder_length :: int
  max_prediction_length :: int
  min_prediction_length :: int
  target :: string
  weight :: "string option"
  time_idx :: string
  group_ids :: "string list"
  static_categoricals :: "string list"
  static_reals :: "string list"
  time_varying_known_categoricals :: "string list"
  time_varying_known_reals :: addr
  time_varying_unknown_categoricals :: "string list"
  time_varying_unknown_reals :: "string list"
  dropout_categoricals :: "string list"
  add_relative_time_idx :: bool
  randomize_length :: "(real \<times> real) option"
  min_prediction_idx :: int
  constant_fill_strategy :: "(string \<times> val) list"
  predict_mode :: bool
  categoricals_encoders :: addr
  scalers :: addr

text \<open>
  A constructed \<^verbatim>\<open>TimeSeriesDataSet\<close>: the keyword arguments and what the constructor
  computes. \<open>data\<close> is the pair of tensors (continuous, categorical) of
  \<^verbatim>\<open>_data_to_tensor\<close>, each a list of rows.
\<close>

record TimeSeriesDataSet = kwargs +
  encoded_constant_fill_strategy :: "(string \<times> val) list"
  data_index :: "index_row list"
  data :: "real list list \<times> int list list"

definition categoricals :: "'a kwargs_scheme \<Rightarrow> string list" where
  "categoricals self =
     static_categoricals self @ time_varying_known_categoricals self
       @ time_varying_unknown_categoricals self"

definition reals :: "heap \<Rightarrow> 'a kwargs_scheme \<Rightarrow> string list" where
  "reals h self =
     static_reals self @ lists h (time_varying_known_reals self)
       @ time_varying_unknown_reals self"

section \<open>The window index: construct\_index\<close>

text \<open>
  \<^verbatim>\<open>construct_index\<close> reads three things of every row of the (sorted) frame: its label in
  the frame's index, the values of the \<^verbatim>\<open>group_ids\<close> columns and \<^verbatim>\<open>__time_idx__\<close>.
\<close>

record frame_row =
  row_label :: int
  group_key :: "val list"
  row_time :: int

text \<open>
  \<^verbatim>\<open>groupby\<close>: two rows are in one group when their keys are equal. \<^verbatim>\<open>nth(0)\<close> and
  \<^verbatim>\<open>nth(-1)\<close> are the first and last row of the group in frame order, \<^verbatim>\<open>diff(-1)\<close> looks at
  the next row of the group, \<^verbatim>\<open>ngroup\<close> numbers the groups in the order of their keys.
\<close>

definition in_group :: "frame_row list \<Rightarrow> nat \<Rightarrow> nat \<Rightarrow> bool" where
  "in_group rows i j = (group_key (rows ! j) = group_key (rows ! i))"

definition nth_first :: "frame_row list \<Rightarrow> nat \<Rightarrow> nat" where
  "nth_first rows i =
     (case find (in_group rows i) [0 ..< length rows] of None \<Rightarrow> i | Some a \<Rightarrow> a)"

definition nth_last :: "frame_row list \<Rightarrow> nat \<Rightarrow> nat" where
  "nth_last rows i =
     (case find (in_group rows i) (rev [0 ..< length rows]) of None \<Rightarrow> i | Some b \<Rightarrow> b)"

definition next_in_group :: "frame_row list \<Rightarrow> nat \<Rightarrow> nat option" where
  "next_in_group rows i = find (in_group rows i) [Suc i ..< length rows]"

fun key_less :: "val list \<Rightarrow> val list \<Rightarrow> bool" where
  "key_less [] [] = False"
| "key_less [] (y # ys) = True"
| "key_less (x # xs) [] = False"
| "key_less (x # xs) (y # ys) = (val_less x y \<or> (x = y \<and> key_less xs ys))"

definition ngroup :: "frame_row list \<Rightarrow> nat \<Rightarrow> nat" where
  "ngroup rows i =
     length (filter (\<lambda>k. key_less k (group_key (rows ! i))) (remdups (map group_key rows)))"

text \<open>The columns of \<^verbatim>\<open>df_index\<close> (lines 253--260) and \<^verbatim>\<open>max_time\<close> (lines 263--265).\<close>

definition time_first_of :: "frame_row list \<Rightarrow> nat \<Rightarrow> int" where
  "time_first_of rows i = row_time (rows ! nth_first rows i)"

definition time_last_of :: "frame_row list \<Rightarrow> nat \<Rightarrow> int" where
  "time_last_of rows i = row_time (rows ! nth_last rows i)"

definition time_diff_to_next_of :: "frame_row list \<Rightarrow> nat \<Rightarrow> int" where
  "time_diff_to_next_of rows i =
     (case next_in_group rows i of
        None \<Rightarrow> 1
      | Some j \<Rightarrow> row_time (rows ! j) - row_time (rows ! i))"

definition count_of :: "frame_row list \<Rightarrow> nat \<Rightarrow> int" where
  "count_of rows i = time_last_of rows i - time_first_of rows i + 1"

definition max_time :: "'a kwargs_scheme \<Rightarrow> frame_row list \<Rightarrow> nat \<Rightarrow> int" where
  "max_time self rows i =
     min (row_time (rows ! i) + max_encoder_length self + max_prediction_length self)
         (count_of rows i + time_first_of rows i)"

text \<open>
  Lines 269--277: with a missing time step somewhere, every row's end pointer starts at the
  row itself and, \<^verbatim>\<open>count.max()\<close> times, moves one row on unless the time after the row
  it points to would pass \<^verbatim>\<open>max_time\<close>.
\<close>

definition walk_step ::
  "'a kwargs_scheme \<Rightarrow> frame_row list \<Rightarrow> int list \<Rightarrow> error + int list" where
  "walk_step self rows ends =
     and_then
       (collect (map (\<lambda>e. and_then (py_index [0 ..< length rows] e) (\<lambda>j.
                        Inr (row_time (rows ! j) + time_diff_to_next_of rows j))) ends))
       (\<lambda>new_end_time.
          Inr (map (\<lambda>(i, e, t). if t + 1 > max_time self rows i then e else e + 1)
                 (zip [0 ..< length rows] (zip ends new_end_time))))"

fun walk :: "'a kwargs_scheme \<Rightarrow> frame_row list \<Rightarrow> nat \<Rightarrow> int list \<Rightarrow> error + int list" where
  "walk self rows 0 ends = Inr ends"
| "walk self rows (Suc k) ends =
     and_then (walk_step self rows ends) (walk self rows k)"

fun maximum :: "int list \<Rightarrow> int" where
  "maximum [] = 0"
| "maximum (x # xs) = fold max xs x"

definition index_end_iterative :: "'a kwargs_scheme \<Rightarrow> frame_row list \<Rightarrow> error + int list" where
  "index_end_iterative self rows =
     (if rows = [] then Inl TypeError
      else walk self rows (nat (maximum (map (count_of rows) [0 ..< length rows])))
             (map int [0 ..< length rows]))"

text \<open>Line 280: without a missing time step the end is computed directly.\<close>

definition index_end_direct :: "'a kwargs_scheme \<Rightarrow> frame_row list \<Rightarrow> int list" where
  "index_end_direct self rows =
     map (\<lambda>i. int i + (max_time self rows i - row_time (rows ! i) - 1)) [0 ..< length rows]"

definition index_end_of :: "'a kwargs_scheme \<Rightarrow> frame_row list \<Rightarrow> error + int list" where
  "index_end_of self rows =
     (if list_ex (\<lambda>i. time_diff_to_next_of rows i \<noteq> 1) [0 ..< length rows]
      then index_end_iterative self rows
      else Inr (index_end_direct self rows))"

text \<open>Line 283 and the finished rows of \<^verbatim>\<open>df_index\<close>, before the filter.\<close>

definition finish_rows ::
  "'a kwargs_scheme \<Rightarrow> frame_row list \<Rightarrow> int list \<Rightarrow> error + index_row list" where
  "finish_rows self rows ends =
     collect (map (\<lambda>(i, e).
         and_then (py_index rows e) (\<lambda>end_row.
           Inr \<lparr>label = row_label (rows ! i),
                time_first = time_first_of rows i,
                time_last = time_last_of rows i,
                time_diff_to_next = time_diff_to_next_of rows i,
                index_start = int i,
                time = row_time (rows ! i),
                count = count_of rows i,
                group_id = ngroup rows i,
                index_end = e,
                sequence_length = row_time end_row - row_time (rows ! i) + 1\<rparr>))
       (zip [0 ..< length rows] ends))"

definition index_rows :: "'a kwargs_scheme \<Rightarrow> frame_row list \<Rightarrow> error + index_row list" where
  "index_rows self rows = and_then (index_end_of self rows) (finish_rows self rows)"

text \<open>
  Lines 285--292, predict mode: the rows within the maximal length that reach the minimal
  length; of these, per \<^verbatim>\<open>group_id\<close> in ascending order, \<^verbatim>\<open>idxmax\<close> gives the label of the
  first row with the greatest \<^verbatim>\<open>sequence_length\<close>, and \<^verbatim>\<open>loc\<close> the rows with these labels.
\<close>

definition predict_filter :: "'a kwargs_scheme \<Rightarrow> index_row \<Rightarrow> bool" where
  "predict_filter self x =
     (time_last x - time x + 1 \<le> max_prediction_length self + max_encoder_length self
      \<and> sequence_length x \<ge> min_prediction_length self + min_encoder_length self)"

fun idxmax :: "index_row list \<Rightarrow> index_row \<Rightarrow> index_row" where
  "idxmax [] best = best"
| "idxmax (r # rs) best =
     idxmax rs (if sequence_length best < sequence_length r then r else best)"

definition groupby_idxmax :: "index_row list \<Rightarrow> int list" where
  "groupby_idxmax df =
     concat (map (\<lambda>g. case filter (\<lambda>r. group_id r = g) df of
                         [] \<Rightarrow> []
                       | r # rs \<Rightarrow> [label (idxmax rs r)])
              (sort (remdups (map group_id df))))"

definition loc :: "index_row list \<Rightarrow> int list \<Rightarrow> index_row list" where
  "loc df labels = concat (map (\<lambda>l. filter (\<lambda>r. label r = l) df) labels)"

definition train_filter :: "'a kwargs_scheme \<Rightarrow> index_row \<Rightarrow> bool" where
  "train_filter self x =
     (sequence_length x \<ge> min_prediction_length self + min_encoder_length self
      \<and> sequence_length x + time x \<ge> min_prediction_idx self - 1 + min_prediction_length self)"

definition construct_index ::
  "'a kwargs_scheme \<Rightarrow> frame_row list \<Rightarrow> bool \<Rightarrow> error + index_row list" where
  "construct_index self rows predict =
     and_then (index_rows self rows) (\<lambda>df_index.
       if predict then
         let df_index' = filter (predict_filter self) df_index
         in Inr (loc df_index' (groupby_idxmax df_index'))
       else Inr (filter (train_filter self) df_index))"

subsection \<open>Frames as the constructor leaves them\<close>



definition frame :: "(int \<times> string \<times> int) list \<Rightarrow> frame_row list" where
  "frame xs = map (\<lambda>(l, g, t). \<lparr>row_label = l, group_key = [Str g], row_time = t\<rparr>) xs"


definition gappy_frame :: "frame_row list" where
  "gappy_frame =
     frame [(10, ''a'', 0), (11, ''a'', 5), (14, ''b'', 5), (15, ''b'', 6), (16, ''b'', 8)]"

section \<open>Reading one example: \_\_getitem\_\_\<close>

text \<open>
  A tensor obtained by slicing is a view: writing into it writes into the tensor it was
  sliced from. A tensor obtained by indexing with an index tensor is a copy. A window is
  therefore a list of rows together with the row offset of the view in the dataset's
  tensor (\<open>None\<close> for a copy).
\<close>

type_synonym 'a window = "'a list list \<times> nat option"

definition slice_view :: "int \<Rightarrow> int \<Rightarrow> 'a window \<Rightarrow> 'a window" where
  "slice_view a b w =
     (py_slice a b (fst w), map_option (\<lambda>off. off + norm_bound (length (fst w)) a) (snd w))"

definition write_through :: "nat option \<Rightarrow> ('a list \<Rightarrow> 'a list) list \<Rightarrow> 'a list list \<Rightarrow> 'a list list" where
  "write_through b fs store =
     (case b of
        None \<Rightarrow> store
      | Some off \<Rightarrow>
          take off store
            @ map (\<lambda>(f, r). f r) (zip fs (take (length fs) (drop off store)))
            @ drop (off + length fs) store)"

text \<open>
  The random draws of one call. \<^verbatim>\<open>Binomial(n, p).sample()\<close> is a number of successes in
  \<open>n\<close> trials; the two draws are given as functions of the trial count.
\<close>

record rng =
  binomial_encoder :: "int \<Rightarrow> int"
  binomial_decoder :: "int \<Rightarrow> int"

datatype tensor = T1 "real list" | T2 "real list list"

record example =
  x_cat :: "int list list"
  x_cont :: "real list list"
  encoder_length :: int
  encoder_target :: tensor

text \<open>Lines 308--313: the index row and the two slices of the tensors.\<close>

definition window_rows ::
  "TimeSeriesDataSet \<Rightarrow> int \<Rightarrow> error + (index_row \<times> real window \<times> int window)" where
  "window_rows self idx =
     and_then (py_index (data_index self) idx) (\<lambda>index.
       Inr (index,
            slice_view (index_start index) (index_end index + 1) (fst (data self), Some 0),
            slice_view (index_start index) (index_end index + 1) (snd (data self), Some 0)))"

text \<open>Lines 315--327: rows for missing time steps repeat the row before the gap.\<close>

definition time_column :: "int list list \<Rightarrow> error + int list" where
  "time_column data_cat = collect (map (\<lambda>r. py_index r (- 1)) data_cat)"

definition repeat_interleave :: "nat list \<Rightarrow> int list \<Rightarrow> error + nat list" where
  "repeat_interleave xs repeats =
     (if length xs \<noteq> length repeats \<or> list_ex (\<lambda>r. r < 0) repeats then Inl RuntimeError
      else Inr (concat (map (\<lambda>(x, r). replicate (nat r) x) (zip xs repeats))))"

definition take_rows :: "'a list \<Rightarrow> nat list \<Rightarrow> error + 'a list" where
  "take_rows xs indices = collect (map (\<lambda>i. py_index xs (int i)) indices)"

definition set_masked :: "bool list \<Rightarrow> nat \<Rightarrow> real \<Rightarrow> real list list \<Rightarrow> error + real list list" where
  "set_masked repeated col_idx v data_cont =
     (if list_ex (\<lambda>r. length r \<le> col_idx) data_cont then Inl IndexError
      else Inr (map (\<lambda>(m, r). if m then r[col_idx := v] else r) (zip repeated data_cont)))"

fun fill_constants ::
  "string list \<Rightarrow> bool list \<Rightarrow> (string \<times> val) list \<Rightarrow> real list list \<Rightarrow> error + real list list" where
  "fill_constants rs repeated [] data_cont = Inr data_cont"
| "fill_constants rs repeated ((name, v) # items) data_cont =
     (case index_of name rs of
        None \<Rightarrow> Inl ValueError
      | Some col_idx \<Rightarrow>
          (case v of
             Str s \<Rightarrow> Inl TypeError
           | Num x \<Rightarrow> and_then (set_masked repeated col_idx x data_cont) (fill_constants rs repeated items)))"

definition fill_missing ::
  "heap \<Rightarrow> TimeSeriesDataSet \<Rightarrow> index_row \<times> real window \<times> int window
     \<Rightarrow> error + (real window \<times> int window)" where
  "fill_missing h self w =
     (case w of (index, data_cont, data_cat) \<Rightarrow>
        if int (length (fst data_cat)) < sequence_length index then
          and_then (time_column (fst data_cat)) (\<lambda>times.
          and_then (repeat_interleave [0 ..< length (fst data_cat)]
                      (map (\<lambda>(a, b). a - b) (zip (tl times) (butlast times)) @ [1])) (\<lambda>indices.
          and_then (take_rows (fst data_cat) indices) (\<lambda>cat'.
          and_then (take_rows (fst data_cont) indices) (\<lambda>cont'.
          and_then (fill_constants (reals h self)
                      (False # map (\<lambda>(a, b). a = b) (zip (tl indices) (butlast indices)))
                      (encoded_constant_fill_strategy self) cont') (\<lambda>cont''.
            Inr ((cont'', None), (cat', None)))))))
        else Inr (data_cont, data_cat))"

definition filled_window ::
  "heap \<Rightarrow> TimeSeriesDataSet \<Rightarrow> int \<Rightarrow> error + (real window \<times> int window)" where
  "filled_window h self idx = and_then (window_rows self idx) (fill_missing h self)"

text \<open>Lines 329--336: the decoder and encoder lengths and the two assertions around them.\<close>

definition window_lengths :: "TimeSeriesDataSet \<Rightarrow> int list list \<Rightarrow> error + (int \<times> int)" where
  "window_lengths self data_cat =
     (let sequence_len = int (length data_cat) in
      if \<not> sequence_len \<ge> min_prediction_length self
      then Inl (AssertionError WindowCoversMinPrediction)
      else
        and_then (py_index data_cat (- 1)) (\<lambda>last_row.
        and_then (py_index last_row (- 1)) (\<lambda>last_time.
          let decoder_len =
                min (min (last_time - (min_prediction_idx self - 1)) (max_prediction_length self))
                    sequence_len;
              encoder_len = sequence_len - decoder_len
          in if \<not> decoder_len \<ge> min_prediction_length self
             then Inl (AssertionError DecoderCoversMinPrediction)
             else Inr (encoder_len, decoder_len))))"

text \<open>
  Lines 338--360: the randomized lengths. The result is the two windows, the two lengths
  and the categorical tensor of the dataset, which the write of line 360 changes when the
  window is a view.
\<close>

definition zero_columns :: "nat list \<Rightarrow> int list \<Rightarrow> int list" where
  "zero_columns cols r = fold (\<lambda>c r. r[c := 0]) cols r"

definition dropout_columns :: "TimeSeriesDataSet \<Rightarrow> error + nat list" where
  "dropout_columns self =
     collect (map (\<lambda>c. case index_of c (categoricals self) of
                          None \<Rightarrow> Inl ValueError
                        | Some i \<Rightarrow> Inr i) (dropout_categoricals self))"

definition randomize ::
  "TimeSeriesDataSet \<Rightarrow> rng \<Rightarrow> real window \<times> int window \<times> int \<times> int
     \<Rightarrow> error + (real window \<times> int window \<times> int \<times> int \<times> int list list)" where
  "randomize self draws w =
     (case w of (data_cont, data_cat, encoder_len, decoder_len) \<Rightarrow>
        let new_encoder_len = binomial_encoder draws encoder_len;
            new_decoder_len = max (min_prediction_length self) (binomial_decoder draws decoder_len);
            truncate = (new_encoder_len + new_decoder_len < int (length (fst data_cat)));
            data_cat' = (if truncate
                         then slice_view (encoder_len - new_encoder_len)
                                (encoder_len + new_decoder_len) data_cat
                         else data_cat);
            data_cont' = (if truncate
                          then slice_view (encoder_len - new_encoder_len)
                                 (encoder_len + new_decoder_len) data_cont
                          else data_cont);
            encoder_len' = (if truncate then new_encoder_len else encoder_len);
            decoder_len' = (if truncate then new_decoder_len else decoder_len)
        in if encoder_len' = 0 \<and> length (dropout_categoricals self) > 0 then
             and_then (dropout_columns self) (\<lambda>cols.
               if list_ex (\<lambda>r. list_ex (\<lambda>c. length r \<le> c) cols) (fst data_cat')
               then Inl IndexError
               else Inr (data_cont',
                         (map (zero_columns cols) (fst data_cat'), snd data_cat'),
                         encoder_len', decoder_len',
                         write_through (snd data_cat')
                           (replicate (length (fst data_cat')) (zero_columns cols))
                           (snd (data self))))
           else Inr (data_cont', data_cat', encoder_len', decoder_len', snd (data self)))"

text \<open>Lines 362--364.\<close>

definition final_asserts :: "TimeSeriesDataSet \<Rightarrow> int list list \<Rightarrow> int \<Rightarrow> int \<Rightarrow> error + unit" where
  "final_asserts self data_cat encoder_len decoder_len =
     (if \<not> decoder_len > 0 then Inl (AssertionError DecoderPositive)
      else if \<not> encoder_len \<ge> 0 then Inl (AssertionError EncoderNonNegative)
      else
        and_then (py_index data_cat (- 1)) (\<lambda>last_row.
        and_then (py_index last_row (- 1)) (\<lambda>last_time.
          if \<not> last_time - min_prediction_idx self + 1 \<ge> decoder_len
          then Inl (AssertionError DecoderAfterMinPredictionIdx)
          else Inr ())))"

text \<open>
  Lines 366--385: the target is split off the continuous window, the relative time index is
  written, and the example is put together. Without a weight the target is the last column
  (\<open>Some\<close> of it). With a weight, line 370 makes \<^verbatim>\<open>target\<close> the same slice
  \<^verbatim>\<open>data_cont[:, :-2]\<close> as the features (\<open>None\<close> here: the target is whatever the
  feature window holds when the call returns). The write of line 373 reaches the dataset's
  continuous tensor when the window is a view.
\<close>

definition split_target ::
  "TimeSeriesDataSet \<Rightarrow> real list list \<Rightarrow> error + (real list option \<times> real list list)" where
  "split_target self data_cont =
     (if weight self = None then
        and_then (collect (map (\<lambda>r. py_index r (- 1)) data_cont)) (\<lambda>target_column.
          Inr (Some target_column, map (py_slice 0 (- 1)) data_cont))
      else
        Inr (None, map (py_slice 0 (- 2)) data_cont))"

definition tensor_take :: "int \<Rightarrow> tensor \<Rightarrow> tensor" where
  "tensor_take n t = (case t of T1 xs \<Rightarrow> T1 (py_slice 0 n xs) | T2 xs \<Rightarrow> T2 (py_slice 0 n xs))"

definition tensor_drop :: "int \<Rightarrow> tensor \<Rightarrow> tensor" where
  "tensor_drop n t =
     (case t of
        T1 xs \<Rightarrow> T1 (py_slice n (int (length xs)) xs)
      | T2 xs \<Rightarrow> T2 (py_slice n (int (length xs)) xs))"

definition tensor_len :: "tensor \<Rightarrow> nat" where
  "tensor_len t = (case t of T1 xs \<Rightarrow> length xs | T2 xs \<Rightarrow> length xs)"

definition relative_time_idx ::
  "heap \<Rightarrow> TimeSeriesDataSet \<Rightarrow> real window \<Rightarrow> int \<Rightarrow> int
     \<Rightarrow> error + (real list list \<times> real list list)" where
  "relative_time_idx h self data_cont encoder_len decoder_len =
     (if add_relative_time_idx self then
        (case index_of ''relative_time_idx'' (reals h self) of
           None \<Rightarrow> Inl ValueError
         | Some k \<Rightarrow>
             let steps = map (\<lambda>j. real_of_int j / real_of_int (max_encoder_length self))
                           [- encoder_len .. decoder_len - 1]
             in if length steps \<noteq> length (fst data_cont) then Inl RuntimeError
                else if list_ex (\<lambda>r. length r \<le> k) (fst data_cont) then Inl IndexError
                else Inr (map (\<lambda>(v, r). r[k := v]) (zip steps (fst data_cont)),
                          write_through (snd data_cont) (map (\<lambda>v r. r[k := v]) steps)
                            (fst (data self))))
      else Inr (fst data_cont, fst (data self)))"

definition getitem ::
  "heap \<Rightarrow> TimeSeriesDataSet \<Rightarrow> rng \<Rightarrow> int
     \<Rightarrow> (error + (example \<times> tensor)) \<times> TimeSeriesDataSet" where
  "getitem h self draws idx =
     (case and_then (filled_window h self idx) (\<lambda>(data_cont, data_cat).
           and_then (window_lengths self (fst data_cat)) (\<lambda>(encoder_len, decoder_len).
             if randomize_length self = None
             then Inr (data_cont, data_cat, encoder_len, decoder_len, snd (data self))
             else randomize self draws (data_cont, data_cat, encoder_len, decoder_len))) of
        Inl e \<Rightarrow> (Inl e, self)
      | Inr (data_cont, data_cat, encoder_len, decoder_len, cat_store) \<Rightarrow>
          (case and_then (final_asserts self (fst data_cat) encoder_len decoder_len) (\<lambda>_.
                and_then (split_target self (fst data_cont)) (\<lambda>(target_column, features).
                and_then (relative_time_idx h self (features, snd data_cont)
                            encoder_len decoder_len) (\<lambda>(features', cont_store).
                  Inr (case target_column of Some t \<Rightarrow> T1 t | None \<Rightarrow> T2 features',
                       features', cont_store)))) of
             Inl e \<Rightarrow> (Inl e, self\<lparr>data := (fst (data self), cat_store)\<rparr>)
           | Inr (target_tensor, features', cont_store) \<Rightarrow>
               (Inr (\<lparr>x_cat = map (py_slice 0 (- 1)) (fst data_cat),
                      x_cont = features',
                      encoder_length = encoder_len,
                      encoder_target = tensor_take encoder_len target_tensor\<rparr>,
                     tensor_drop encoder_len target_tensor),
                self\<lparr>data := (cont_store, cat_store)\<rparr>)))"

section \<open>The constructor\<close>

subsection \<open>Frames and scalers\<close>

text \<open>
  A frame is its index (the row labels) and its columns, in order, each as long as the
  index. \<^verbatim>\<open>df[name]\<close> raises \<^verbatim>\<open>KeyError\<close> for a missing column; \<^verbatim>\<open>df[name] = column\<close>
  and \<^verbatim>\<open>d[key] = value\<close> replace an entry or add one at the end.
\<close>

record dataframe =
  df_index :: "int list"
  df_columns :: "(string \<times> column) list"

fun assign :: "'k \<Rightarrow> 'v \<Rightarrow> ('k \<times> 'v) list \<Rightarrow> ('k \<times> 'v) list" where
  "assign k v [] = [(k, v)]"
| "assign k v (kv # kvs) = (if fst kv = k then (k, v) # kvs else kv # assign k v kvs)"

definition column_of :: "dataframe \<Rightarrow> string \<Rightarrow> error + column" where
  "column_of df name =
     (case map_of (df_columns df) name of None \<Rightarrow> Inl KeyError | Some c \<Rightarrow> Inr c)"

definition set_column :: "dataframe \<Rightarrow> string \<Rightarrow> column \<Rightarrow> dataframe" where
  "set_column df name c = df\<lparr>df_columns := assign name c (df_columns df)\<rparr>"

fun reorder :: "nat list \<Rightarrow> column \<Rightarrow> column" where
  "reorder perm (NumColumn xs) = NumColumn (map (\<lambda>i. xs ! i) perm)"
| "reorder perm (StrColumn xs) = StrColumn (map (\<lambda>i. xs ! i) perm)"

text \<open>
  \<^verbatim>\<open>sort_values\<close> by several columns: a stable sort of the rows by the tuple of their
  values in these columns.
\<close>

fun insert_by :: "(nat \<Rightarrow> val list) \<Rightarrow> nat \<Rightarrow> nat list \<Rightarrow> nat list" where
  "insert_by key i [] = [i]"
| "insert_by key i (j # js) =
     (if key_less (key i) (key j) then i # j # js else j # insert_by key i js)"

definition argsort :: "(nat \<Rightarrow> val list) \<Rightarrow> nat \<Rightarrow> nat list" where
  "argsort key n = foldl (\<lambda>acc i. insert_by key i acc) [] [0 ..< n]"

definition sort_values :: "dataframe \<Rightarrow> string list \<Rightarrow> error + dataframe" where
  "sort_values df by =
     and_then (collect (map (column_of df) by)) (\<lambda>cols.
       let perm = argsort (\<lambda>i. map (\<lambda>c. values_of c ! i) cols) (length (df_index df))
       in Inr \<lparr>df_index = map (\<lambda>i. df_index df ! i) perm,
               df_columns = map (\<lambda>(name, c). (name, reorder perm c)) (df_columns df)\<rparr>)"

text \<open>
  The scalers of scikit-learn, by their documented formulas over exact reals:
  \<^verbatim>\<open>MinMaxScaler(feature_range=(-1, 1))\<close> keeps the minimum and maximum of the data,
  \<^verbatim>\<open>StandardScaler()\<close> its mean and variance; a zero range or deviation scales by 1.
  Fitting raises \<^verbatim>\<open>ValueError\<close> on strings and on no data.
\<close>

definition column_reals :: "column \<Rightarrow> error + real list" where
  "column_reals c = (case c of NumColumn xs \<Rightarrow> Inr xs | StrColumn xs \<Rightarrow> Inl ValueError)"

fun data_min :: "real list \<Rightarrow> real" where
  "data_min [] = 0"
| "data_min (x # xs) = fold min xs x"

fun data_max :: "real list \<Rightarrow> real" where
  "data_max [] = 0"
| "data_max (x # xs) = fold max xs x"

definition mean :: "real list \<Rightarrow> real" where
  "mean xs = sum_list xs / real (length xs)"

definition variance :: "real list \<Rightarrow> real" where
  "variance xs = sum_list (map (\<lambda>x. (x - mean xs) ^ 2) xs) / real (length xs)"

definition fit_scaler :: "bool \<Rightarrow> column \<Rightarrow> error + scaler" where
  "fit_scaler is_time_idx c =
     and_then (column_reals c) (\<lambda>xs.
       if xs = [] then Inl ValueError
       else if is_time_idx then Inr (MinMaxScaler (data_min xs) (data_max xs))
       else Inr (StandardScaler (mean xs) (variance xs)))"

definition handle_zeros :: "real \<Rightarrow> real" where
  "handle_zeros s = (if s = 0 then 1 else s)"

definition standard_scale :: "real \<Rightarrow> real" where
  "standard_scale v = handle_zeros (sqrt v)"

text \<open>
  The square root of a real number cannot be computed in general; evaluation goes
  through where the variance is zero.
\<close>

lemma standard_scale_code [code]:
  "standard_scale v =
     (if v = 0 then 1 else Code.abort (STR ''square root'') (\<lambda>u. standard_scale v))"
  by (simp add: standard_scale_def handle_zeros_def)

fun scale_value :: "scaler \<Rightarrow> real \<Rightarrow> real" where
  "scale_value (MinMaxScaler lo hi) x =
     x * (2 / handle_zeros (hi - lo)) + (- 1 - lo * (2 / handle_zeros (hi - lo)))"
| "scale_value (StandardScaler m v) x = (x - m) / standard_scale v"

definition scaler_transform :: "scaler \<Rightarrow> column \<Rightarrow> error + column" where
  "scaler_transform s c =
     and_then (column_reals c) (\<lambda>xs. Inr (NumColumn (map (scale_value s) xs)))"

subsection \<open>The default arguments\<close>

text \<open>
  A default value in a Python signature is one object, made when the function is defined
  and used by every call that leaves the argument out. The defaults of
  \<^verbatim>\<open>time_varying_known_reals\<close>, \<^verbatim>\<open>categoricals_encoders\<close> and \<^verbatim>\<open>scalers\<close> are at
  these addresses; in \<open>initial_heap\<close>, the store when the module has just been imported,
  every object is empty.
\<close>

definition default_time_varying_known_reals :: addr where
  "default_time_varying_known_reals = 0"

definition default_categoricals_encoders :: addr where
  "default_categoricals_encoders = 0"

definition default_scalers :: addr where
  "default_scalers = 0"

definition initial_heap :: heap where
  "initial_heap = \<lparr>lists = (\<lambda>a. []), encoder_dicts = (\<lambda>a. []), scaler_dicts = (\<lambda>a. [])\<rparr>"

subsection \<open>\_\_init\_\_\<close>

text \<open>Line 146.\<close>

definition resolve_min_prediction_idx :: "'a kwargs_scheme \<Rightarrow> dataframe \<Rightarrow> error + int" where
  "resolve_min_prediction_idx kw df =
     (if min_prediction_idx kw \<noteq> 0 then Inr (min_prediction_idx kw)
      else and_then (column_of df (time_idx kw)) (\<lambda>c.
             case c of
               NumColumn xs \<Rightarrow> Inr \<lfloor>data_min xs\<rfloor>
             | StrColumn xs \<Rightarrow> Inr 0))"

text \<open>
  Lines 160--167: every categorical without an encoder in the dictionary gets one, fitted
  on its column and stored in the dictionary; every categorical whose entry is not
  \<^verbatim>\<open>None\<close> is replaced by its codes.
\<close>

fun encode_categoricals ::
  "addr \<Rightarrow> string list \<Rightarrow> string list \<Rightarrow> heap \<Rightarrow> dataframe \<Rightarrow> (error + dataframe) \<times> heap" where
  "encode_categoricals a dropout [] h df = (Inr df, h)"
| "encode_categoricals a dropout (name # names) h df =
     (case (case map_of (encoder_dicts h a) name of
              Some entry \<Rightarrow> Inr h
            | None \<Rightarrow>
                and_then (column_of df name) (\<lambda>c.
                  Inr (h\<lparr>encoder_dicts := (encoder_dicts h)
                         (a := encoder_dicts h a
                                 @ [(name, Some (fit (NaNLabelEncoder_init (name \<in> set dropout)) c))])\<rparr>))) of
        Inl e \<Rightarrow> (Inl e, h)
      | Inr h' \<Rightarrow>
          (case map_of (encoder_dicts h' a) name of
             Some (Some encoder) \<Rightarrow>
               (case and_then (column_of df name) (transform encoder) of
                  Inl e \<Rightarrow> (Inl e, h')
                | Inr codes \<Rightarrow>
                    encode_categoricals a dropout names h'
                      (set_column df name (NumColumn (map real_of_int codes))))
           | _ \<Rightarrow> encode_categoricals a dropout names h' df))"

text \<open>Lines 183--190, the same for the reals and their scalers.\<close>

fun scale_reals ::
  "addr \<Rightarrow> string \<Rightarrow> string list \<Rightarrow> heap \<Rightarrow> dataframe \<Rightarrow> (error + dataframe) \<times> heap" where
  "scale_reals a time_name [] h df = (Inr df, h)"
| "scale_reals a time_name (name # names) h df =
     (case (case map_of (scaler_dicts h a) name of
              Some entry \<Rightarrow> Inr h
            | None \<Rightarrow>
                and_then (column_of df name) (\<lambda>c.
                and_then (fit_scaler (name = time_name) c) (\<lambda>s.
                  Inr (h\<lparr>scaler_dicts := (scaler_dicts h)
                         (a := scaler_dicts h a @ [(name, Some s)])\<rparr>)))) of
        Inl e \<Rightarrow> (Inl e, h)
      | Inr h' \<Rightarrow>
          (case map_of (scaler_dicts h' a) name of
             Some (Some s) \<Rightarrow>
               (case and_then (column_of df name) (scaler_transform s) of
                  Inl e \<Rightarrow> (Inl e, h')
                | Inr c \<Rightarrow> scale_reals a time_name names h' (set_column df name c))
           | _ \<Rightarrow> scale_reals a time_name names h' df))"

text \<open>
  Lines 193--200. A dictionary entry \<^verbatim>\<open>None\<close> has no \<^verbatim>\<open>transform\<close>
  (\<^verbatim>\<open>AttributeError\<close>); an encoder in add-nan mode reads the dtype of its argument,
  which the list \<^verbatim>\<open>[value]\<close> does not have.
\<close>

definition encode_constant :: "heap \<Rightarrow> 'a kwargs_scheme \<Rightarrow> string \<times> val \<Rightarrow> error + (string \<times> val)" where
  "encode_constant h kw item =
     (case item of (name, v) \<Rightarrow>
        case map_of (scaler_dicts h (scalers kw)) name of
          Some None \<Rightarrow> Inl AttributeError
        | Some (Some s) \<Rightarrow>
            (case v of Num x \<Rightarrow> Inr (name, Num (scale_value s x)) | Str x \<Rightarrow> Inl ValueError)
        | None \<Rightarrow>
            (case map_of (encoder_dicts h (categoricals_encoders kw)) name of
               Some None \<Rightarrow> Inl AttributeError
             | Some (Some encoder) \<Rightarrow>
                 if add_nan encoder then Inl AttributeError
                 else and_then (LabelEncoder_transform (classes encoder)
                                  (case v of Num x \<Rightarrow> NumColumn [x] | Str x \<Rightarrow> StrColumn [x]))
                        (\<lambda>codes. and_then (py_index codes 0) (\<lambda>code. Inr (name, Num (real_of_int code))))
             | None \<Rightarrow> Inr (name, v)))"

text \<open>Line 203: the rows that \<^verbatim>\<open>construct_index\<close> reads off the frame.\<close>

definition frame_rows :: "'a kwargs_scheme \<Rightarrow> dataframe \<Rightarrow> error + frame_row list" where
  "frame_rows kw df =
     and_then (collect (map (column_of df) (group_ids kw))) (\<lambda>cols.
     and_then (column_of df ''__time_idx__'') (\<lambda>c.
       case c of
         StrColumn xs \<Rightarrow> Inl TypeError
       | NumColumn time_values \<Rightarrow>
           Inr (map (\<lambda>i. \<lparr>row_label = df_index df ! i,
                           group_key = map (\<lambda>c. values_of c ! i) cols,
                           row_time = \<lfloor>time_values ! i\<rfloor>\<rparr>)
                  [0 ..< length (df_index df)])))"

text \<open>Lines 208--217.\<close>

definition to_numpy :: "dataframe \<Rightarrow> string list \<Rightarrow> error + real list list" where
  "to_numpy df names =
     and_then (collect (map (\<lambda>name. and_then (column_of df name) column_reals) names)) (\<lambda>cols.
       Inr (map (\<lambda>i. map (\<lambda>xs. xs ! i) cols) [0 ..< length (df_index df)]))"

definition data_to_tensor ::
  "heap \<Rightarrow> 'a kwargs_scheme \<Rightarrow> dataframe \<Rightarrow> error + (real list list \<times> int list list)" where
  "data_to_tensor h kw df =
     and_then (to_numpy df (categoricals kw @ [''__time_idx__''])) (\<lambda>categorical.
     and_then (to_numpy df (reals h kw @ [''__target__'']
                 @ (if weight kw \<noteq> None then [''__weight__''] else []))) (\<lambda>continuous.
       Inr (continuous, map (map (\<lambda>x. if x < 0 then \<lceil>x\<rceil> else \<lfloor>x\<rfloor>)) categorical)))"

text \<open>Lines 177--179: the list of known reals is extended in place.\<close>

definition append_relative_time_idx :: "'a kwargs_scheme \<Rightarrow> heap \<Rightarrow> heap" where
  "append_relative_time_idx self h =
     (if add_relative_time_idx self
         \<and> ''relative_time_idx'' \<notin> set (lists h (time_varying_known_reals self))
      then h\<lparr>lists := (lists h)
             (time_varying_known_reals self :=
                lists h (time_varying_known_reals self) @ [''relative_time_idx''])\<rparr>
      else h)"

text \<open>Lines 170--174: the unscaled copies of the time index, the target and the weight.\<close>

definition shadow_columns :: "'a kwargs_scheme \<Rightarrow> dataframe \<Rightarrow> error + dataframe" where
  "shadow_columns self df =
     and_then (column_of df (time_idx self)) (\<lambda>c.
     and_then (column_of (set_column df ''__time_idx__'' c) (target self)) (\<lambda>c'.
       let df2 = set_column (set_column df ''__time_idx__'' c) ''__target__'' c' in
       case weight self of
         None \<Rightarrow> Inr df2
       | Some w \<Rightarrow> and_then (column_of df2 w) (\<lambda>c''. Inr (set_column df2 ''__weight__'' c''))))"

text \<open>Line 180: the column of the relative time index, filled in by \<^verbatim>\<open>__getitem__\<close>.\<close>

definition relative_column :: "'a kwargs_scheme \<Rightarrow> dataframe \<Rightarrow> dataframe" where
  "relative_column self df =
     (if add_relative_time_idx self
      then set_column df ''relative_time_idx'' (NumColumn (replicate (length (df_index df)) 0))
      else df)"

text \<open>Lines 192--206: the encoded constants, the index and the tensors.\<close>

definition index_and_tensors :: "heap \<Rightarrow> kwargs \<Rightarrow> dataframe \<Rightarrow> error + TimeSeriesDataSet" where
  "index_and_tensors h self df =
     and_then (collect (map (encode_constant h self) (constant_fill_strategy self))) (\<lambda>constants.
     and_then (frame_rows self df) (\<lambda>rows.
     and_then (construct_index self rows (predict_mode self)) (\<lambda>index.
     and_then (data_to_tensor h self df) (\<lambda>tensors.
       Inr (kwargs.extend self
              \<lparr>encoded_constant_fill_strategy = constants,
               data_index = index,
               data = tensors\<rparr>)))))"

text \<open>
  The constructor, in the order of its statements. The store is returned as the
  statements that ran have left it, also when a later one raises.
\<close>

definition init :: "heap \<Rightarrow> kwargs \<Rightarrow> dataframe \<Rightarrow> (error + TimeSeriesDataSet) \<times> heap" where
  "init h kw df =
     (if \<not> min_prediction_length kw > 0 then (Inl (AssertionError PredictionLengthPositive), h)
      else case resolve_min_prediction_idx kw df of
        Inl e \<Rightarrow> (Inl e, h)
      | Inr idx \<Rightarrow>
      let self = kw\<lparr>min_prediction_idx := idx\<rparr> in
      if \<not> target self \<notin> set (lists h (time_varying_known_reals self))
      then (Inl (AssertionError TargetNotKnownReal), h)
      else if \<not> distinct (df_index df) then (Inl (AssertionError DataIndexUnique), h)
      else case sort_values df (group_ids self @ [time_idx self]) of
        Inl e \<Rightarrow> (Inl e, h)
      | Inr ordered \<Rightarrow>
      case encode_categoricals (categoricals_encoders self) (dropout_categoricals self)
             (categoricals self) h ordered of
        (Inl e, h1) \<Rightarrow> (Inl e, h1)
      | (Inr encoded, h1) \<Rightarrow>
      case shadow_columns self encoded of
        Inl e \<Rightarrow> (Inl e, h1)
      | Inr shadowed \<Rightarrow>
      let h2 = append_relative_time_idx self h1 in
      case scale_reals (scalers self) (time_idx self) (reals h2 self) h2
             (relative_column self shadowed) of
        (Inl e, h3) \<Rightarrow> (Inl e, h3)
      | (Inr rescaled, h3) \<Rightarrow> (index_and_tensors h3 self rescaled, h3))"

subsection \<open>from\_dataset\<close>

text \<open>
  Lines 228--247. Every keyword argument is read off the dataset; the two dictionaries
  are the dataset's own objects, not copies. The overriding keyword arguments are an
  update of the record.
\<close>

definition from_dataset ::
  "heap \<Rightarrow> TimeSeriesDataSet \<Rightarrow> dataframe \<Rightarrow> bool \<Rightarrow> bool \<Rightarrow> (kwargs \<Rightarrow> kwargs)
     \<Rightarrow> (error + TimeSeriesDataSet) \<times> heap" where
  "from_dataset h dataset df stop_randomization predict update_kwargs =
     (let kw = kwargs.truncate dataset;
          kw1 = kw\<lparr>categoricals_encoders := categoricals_encoders dataset,
                   scalers := scalers dataset\<rparr>
      in if predict \<and> \<not> stop_randomization
         then (Inl (AssertionError NoRandomizationWhenPredicting), h)
         else
           let kw2 = (if predict
                      then kw1\<lparr>min_prediction_length := max_prediction_length kw1,
                               predict_mode := True\<rparr>
                      else kw1);
               kw3 = (if stop_randomization then kw2\<lparr>randomize_length := None\<rparr> else kw2)
           in init h (update_kwargs kw3) df)"

subsection \<open>The decoder length as the specification words it\<close>


text \<open>What a binomial draw can be: between 0 and the number of trials.\<close>

definition binomial_range :: "(int \<Rightarrow> int) \<Rightarrow> bool" where
  "binomial_range f = (\<forall>n. 0 \<le> n \<longrightarrow> 0 \<le> f n \<and> f n \<le> n)"

subsection \<open>An example dataset\<close>

text \<open>
  One series with the time steps 0 to 3, one real feature \<^verbatim>\<open>x\<close> (passed with the scaler
  \<^verbatim>\<open>None\<close>, so unscaled), the target \<^verbatim>\<open>y\<close>, encoder and prediction lengths up to 2, no
  relative time index. The continuous tensor has the columns \<^verbatim>\<open>x\<close> and \<^verbatim>\<open>__target__\<close>,
  the categorical tensor the column \<^verbatim>\<open>__time_idx__\<close>; the first window of the index
  spans all four rows. \<open>weighted_dataset\<close> is the same with the weight column \<^verbatim>\<open>w\<close>
  (constant 5), which adds the column \<^verbatim>\<open>__weight__\<close>.
\<close>

definition example_heap :: heap where
  "example_heap = \<lparr>lists = (\<lambda>a. []), encoder_dicts = (\<lambda>a. []), scaler_dicts = (\<lambda>a. [])\<rparr>"

definition example_dataset :: TimeSeriesDataSet where
  "example_dataset =
     \<lparr>min_encoder_length = 0, max_encoder_length = 2, max_prediction_length = 2,
      min_prediction_length = 1, target = ''y'', weight = None, time_idx = ''t'',
      group_ids = [''g''], static_categoricals = [], static_reals = [''x''],
      time_varying_known_categoricals = [], time_varying_known_reals = 1,
      time_varying_unknown_categoricals = [], time_varying_unknown_reals = [],
      dropout_categoricals = [], add_relative_time_idx = False, randomize_length = None,
      min_prediction_idx = 0, constant_fill_strategy = [], predict_mode = False,
      categoricals_encoders = 2, scalers = 3, encoded_constant_fill_strategy = [],
      data_index =
        [\<lparr>label = 0, time_first = 0, time_last = 3, time_diff_to_next = 1, index_start = 0,
          time = 0, count = 4, group_id = 0, index_end = 3, sequence_length = 4\<rparr>],
      data = ([[10, 1], [20, 2], [30, 3], [40, 4]], [[0], [1], [2], [3]])\<rparr>"

definition weighted_dataset :: TimeSeriesDataSet where
  "weighted_dataset =
     example_dataset\<lparr>weight := Some ''w'',
       data := ([[10, 1, 5], [20, 2, 5], [30, 3, 5], [40, 4, 5]], [[0], [1], [2], [3]])\<rparr>"

definition randomized_dataset :: TimeSeriesDataSet where
  "randomized_dataset = example_dataset\<lparr>randomize_length := Some (0.2, 0.05)\<rparr>"

text \<open>Draws: every encoder trial succeeds, all decoder trials but one succeed.\<close>

definition example_draws :: rng where
  "example_draws = \<lparr>binomial_encoder = (\<lambda>n. n), binomial_decoder = (\<lambda>n. max 0 (n - 1))\<rparr>"

subsection \<open>Auxiliary notions for the index\<close>




definition gap_dataset :: TimeSeriesDataSet where
  "gap_dataset = example_dataset\<lparr>max_encoder_length := 3, max_prediction_length := 3\<rparr>"

section \<open>Properties of the label encoder\<close>

lemma set_insert_sorted: "set (insert_sorted x ys) = insert x (set ys)"
  by (induction ys) auto

lemma set_np_unique: "set (np_unique ys) = set ys"
  unfolding np_unique_def by (induction ys) (auto simp: set_insert_sorted)



lemma index_of_None: "x \<notin> set cs \<Longrightarrow> index_of x cs = None"
  by (induction cs) auto


lemma lookup_all_unseen:
  "Cls v \<notin> set cs \<Longrightarrow> v \<in> set vs \<Longrightarrow> lookup_all cs vs = Inl ValueError"
  by (induction vs) (auto simp: index_of_None split: option.splits sum.splits)


text \<open>
  In either mode a label that was not in the fitted column, and is not the string
  \<^verbatim>\<open>"nan"\<close>, makes \<^verbatim>\<open>transform\<close> raise: \<^verbatim>\<open>encode_nans\<close> leaves the column as it is and
  the lookup in \<^verbatim>\<open>classes_\<close> fails.
\<close>

lemma transform_unseen:
  assumes "v \<in> set (values_of xs)" "v \<notin> set (values_of ys)" "v \<noteq> Str ''nan''"
  shows "transform (fit (NaNLabelEncoder_init b) ys) xs = Inl ValueError"
proof -
  have "\<exists>cs. classes (fit (NaNLabelEncoder_init b) ys) = Some cs \<and> Cls v \<notin> set cs"
    using assms(2,3) by (cases ys)
     (auto simp: fit_def NaNLabelEncoder_init_def LabelEncoder_fit_def set_np_unique Let_def
        encode_nans_def is_numeric_def isinstance_CategoricalDtype_def)
  then obtain cs where "classes (fit (NaNLabelEncoder_init b) ys) = Some cs" "Cls v \<notin> set cs"
    by blast
  then show ?thesis using assms(1) lookup_all_unseen [of v cs "values_of xs"]
    by (simp add: transform_def LabelEncoder_transform_def encode_nans_def
        isinstance_CategoricalDtype_def)
qed

section \<open>Claims\<close>



text \<open>
  C7. The claim asks that an encoder fitted in add-nan mode maps a label absent from its
  fit set to the reserved code 0. On the code, the encoder fitted with \<^verbatim>\<open>add_nan=True\<close>
  on \<^verbatim>\<open>["a", "b", "c"]\<close> raises on the unseen label \<^verbatim>\<open>"q"\<close>, exactly as an encoder
  fitted without \<^verbatim>\<open>add_nan\<close> does.
\<close>

theorem add_nan_unseen_label_raises:
  "transform (fit (NaNLabelEncoder_init True) (StrColumn [''a'', ''b'', ''c''])) (StrColumn [''q''])
     = Inl ValueError \<and>
   transform (fit (NaNLabelEncoder_init False) (StrColumn [''a'', ''b'', ''c''])) (StrColumn [''q''])
     = Inl ValueError"
  by (simp add: transform_def fit_def NaNLabelEncoder_init_def LabelEncoder_fit_def np_unique_def
        Let_def encode_nans_def is_numeric_def isinstance_CategoricalDtype_def
        LabelEncoder_transform_def)

section \<open>Properties of \_\_getitem\_\_\<close>

lemma and_then_Inr: "and_then m f = Inr y \<Longrightarrow> \<exists>x. m = Inr x \<and> f x = Inr y"
  by (cases m) (auto simp: and_then_def)

lemma and_then_Inl: "and_then m f = Inl e \<Longrightarrow> m = Inl e \<or> (\<exists>x. m = Inr x \<and> f x = Inl e)"
  by (cases m) (auto simp: and_then_def)

lemma collect_length: "collect ms = Inr xs \<Longrightarrow> length xs = length ms"
  by (induction ms arbitrary: xs) (auto split: sum.splits)

lemma take_rows_length: "take_rows xs indices = Inr ys \<Longrightarrow> length ys = length indices"
  unfolding take_rows_def by (drule collect_length) simp

lemma length_py_slice:
  "length (py_slice a b xs) = norm_bound (length xs) b - norm_bound (length xs) a"
  by (auto simp: py_slice_def Let_def norm_bound_def)

lemma window_lengths_Inr:
  assumes "window_lengths self data_cat = Inr (enc, dec)"
  shows "enc + dec = int (length data_cat)" "min_prediction_length self \<le> dec" "0 \<le> enc"
    "dec \<le> max_prediction_length self"
  using assms
  by (auto simp: window_lengths_def Let_def and_then_def split: if_splits sum.splits)


lemma getitem_Inr:
  assumes "fst (getitem h self draws idx) = Inr (ex, y)"
  shows "\<exists>data_cont data_cat enc dec dc' dcat' enc' dec' cat_store tc features features' cont_store.
     filled_window h self idx = Inr (data_cont, data_cat) \<and>
     window_lengths self (fst data_cat) = Inr (enc, dec) \<and>
     (if randomize_length self = None
      then (dc', dcat', enc', dec', cat_store) = (data_cont, data_cat, enc, dec, snd (data self))
      else randomize self draws (data_cont, data_cat, enc, dec) = Inr (dc', dcat', enc', dec', cat_store)) \<and>
     final_asserts self (fst dcat') enc' dec' = Inr () \<and>
     split_target self (fst dc') = Inr (tc, features) \<and>
     relative_time_idx h self (features, snd dc') enc' dec' = Inr (features', cont_store) \<and>
     ex = \<lparr>x_cat = map (py_slice 0 (- 1)) (fst dcat'), x_cont = features',
            encoder_length = enc',
            encoder_target = tensor_take enc' (case tc of Some t \<Rightarrow> T1 t | None \<Rightarrow> T2 features')\<rparr> \<and>
     y = tensor_drop enc' (case tc of Some t \<Rightarrow> T1 t | None \<Rightarrow> T2 features')"
  using assms
  by (auto simp: getitem_def and_then_def split: sum.splits prod.splits if_splits)


lemma set_masked_length': "set_masked m c v rows = Inr rows' \<Longrightarrow> length rows \<le> length m \<Longrightarrow> length rows' = length rows"
  by (auto simp: set_masked_def split: if_splits)

lemma fill_constants_length:
  "fill_constants rs m items rows = Inr rows' \<Longrightarrow> length rows \<le> length m \<Longrightarrow> length rows' = length rows"
proof (induction items arbitrary: rows)
  case Nil
  then show ?case by simp
next
  case (Cons it items)
  obtain name v where it: "it = (name, v)" by (cases it)
  from Cons.prems(1) it obtain k x rows1 where
    s: "set_masked m k x rows = Inr rows1" and f: "fill_constants rs m items rows1 = Inr rows'"
    by (auto simp: and_then_def split: option.splits val.splits sum.splits)
  from set_masked_length' [OF s Cons.prems(2)] have l: "length rows1 = length rows" .
  with Cons.IH [OF f] Cons.prems(2) show ?case by simp
qed

lemma filled_window_rows:
  assumes st: "length (fst (data self)) = length (snd (data self))"
      and fw: "filled_window h self idx = Inr (dc, dcat)"
  shows "length (fst dc) = length (fst dcat)"
proof -
  from fw obtain index wc wcat where
    wr: "window_rows self idx = Inr (index, wc, wcat)" and
    fm: "fill_missing h self (index, wc, wcat) = Inr (dc, dcat)"
    unfolding filled_window_def by (auto dest!: and_then_Inr)
  from wr st have eq: "length (fst wc) = length (fst wcat)"
    by (auto simp: window_rows_def slice_view_def length_py_slice dest!: and_then_Inr)
  show ?thesis
  proof (cases "int (length (fst wcat)) < sequence_length index")
    case False
    with fm eq show ?thesis by (simp add: fill_missing_def)
  next
    case True
    with fm obtain times indices cat' cont' cont'' where
      tr1: "take_rows (fst wcat) indices = Inr cat'" and
      tr2: "take_rows (fst wc) indices = Inr cont'" and
      fc: "fill_constants (reals h self)
             (False # map (\<lambda>(a, b). a = b) (zip (tl indices) (butlast indices)))
             (encoded_constant_fill_strategy self) cont' = Inr cont''" and
      res: "dc = (cont'', None)" "dcat = (cat', None)"
      by (auto simp: fill_missing_def dest!: and_then_Inr)
    have "length cont' \<le> length (False # map (\<lambda>(a, b). a = b) (zip (tl indices) (butlast indices)))"
      using take_rows_length [OF tr2] by simp
    from fill_constants_length [OF fc this] take_rows_length [OF tr1] take_rows_length [OF tr2] res
    show ?thesis by simp
  qed
qed

lemma randomize_lengths:
  assumes r: "randomize self draws (dc, dcat, enc, dec) = Inr (dc', dcat', enc', dec', cs)"
      and eq: "length (fst dc) = length (fst dcat)"
      and sum: "enc + dec = int (length (fst dcat))"
      and enc0: "0 \<le> enc" and decm: "min_prediction_length self \<le> dec"
      and mp: "0 < min_prediction_length self"
      and be: "binomial_range (binomial_encoder draws)" and bd: "binomial_range (binomial_decoder draws)"
  shows "(if binomial_encoder draws enc + max (min_prediction_length self) (binomial_decoder draws dec)
             < int (length (fst dcat))
          then enc' = binomial_encoder draws enc \<and>
               dec' = max (min_prediction_length self) (binomial_decoder draws dec)
          else enc' = enc \<and> dec' = dec) \<and>
         int (length (fst dcat')) = enc' + dec' \<and> length (fst dc') = length (fst dcat')"
proof -
  define ne where "ne = binomial_encoder draws enc"
  define nd where "nd = max (min_prediction_length self) (binomial_decoder draws dec)"
  have ne: "0 \<le> ne" "ne \<le> enc" using be enc0 by (auto simp: binomial_range_def ne_def)
  have "0 \<le> dec" using decm mp by simp
  then have nd: "min_prediction_length self \<le> nd" "nd \<le> dec"
    using bd decm by (auto simp: binomial_range_def nd_def)
  have sl: "length (py_slice (enc - ne) (enc + nd) xs) = nat (ne + nd)"
    if "int (length xs) = enc + dec" for xs :: "'a list"
    using that ne nd mp by (auto simp: length_py_slice norm_bound_def)
  show ?thesis
  proof (cases "ne + nd < int (length (fst dcat))")
    case True
    with r have "enc' = ne" "dec' = nd"
        "length (fst dcat') = length (py_slice (enc - ne) (enc + nd) (fst dcat))"
        "length (fst dc') = length (py_slice (enc - ne) (enc + nd) (fst dc))"
      by (auto simp: randomize_def Let_def slice_view_def ne_def nd_def
            dest!: and_then_Inr split: if_splits)
    with True sl [of "fst dcat"] sl [of "fst dc"] sum eq ne nd mp
    have "(if ne + nd < int (length (fst dcat)) then enc' = ne \<and> dec' = nd
           else enc' = enc \<and> dec' = dec) \<and>
          int (length (fst dcat')) = enc' + dec' \<and> length (fst dc') = length (fst dcat')"
      by simp
    then show ?thesis unfolding ne_def nd_def .
  next
    case False
    with r have "enc' = enc" "dec' = dec" "length (fst dcat') = length (fst dcat)"
        "length (fst dc') = length (fst dc)"
      by (auto simp: randomize_def Let_def slice_view_def ne_def nd_def
            dest!: and_then_Inr split: if_splits)
    with False sum eq
    have "(if ne + nd < int (length (fst dcat)) then enc' = ne \<and> dec' = nd
           else enc' = enc \<and> dec' = dec) \<and>
          int (length (fst dcat')) = enc' + dec' \<and> length (fst dc') = length (fst dcat')"
      by simp
    then show ?thesis unfolding ne_def nd_def .
  qed
qed


lemma split_target_length:
  "split_target self rows = Inr (tc, features) \<Longrightarrow>
     length features = length rows \<and> (\<forall>t. tc = Some t \<longrightarrow> length t = length rows)"
  by (auto simp: split_target_def dest!: and_then_Inr collect_length split: if_splits)

lemma relative_time_idx_length:
  "relative_time_idx h self (features, b) enc dec = Inr (features', cs) \<Longrightarrow>
     length features' = length features"
  by (auto simp: relative_time_idx_def Let_def split: if_splits option.splits)

lemma tensor_len_drop:
  "0 \<le> n \<Longrightarrow> n \<le> int (tensor_len t) \<Longrightarrow> int (tensor_len (tensor_drop n t)) = int (tensor_len t) - n"
  by (cases t) (auto simp: tensor_len_def tensor_drop_def length_py_slice norm_bound_def)

lemma final_asserts_Inr:
  "final_asserts self data_cat enc dec = Inr u \<Longrightarrow> 0 < dec \<and> 0 \<le> enc"
  by (auto simp: final_asserts_def split: if_splits)




lemma getitem_shape:
  assumes st: "length (fst (data self)) = length (snd (data self))"
      and g: "fst (getitem h self draws idx) = Inr (ex, y)"
  shows "\<exists>data_cont data_cat enc dec dc' dcat' dec' cs.
     filled_window h self idx = Inr (data_cont, data_cat) \<and>
     window_lengths self (fst data_cat) = Inr (enc, dec) \<and>
     (if randomize_length self = None
      then (dc', dcat', encoder_length ex, dec', cs) = (data_cont, data_cat, enc, dec, snd (data self))
      else randomize self draws (data_cont, data_cat, enc, dec)
             = Inr (dc', dcat', encoder_length ex, dec', cs)) \<and>
     0 < dec' \<and> 0 \<le> encoder_length ex \<and>
     length (x_cat ex) = length (fst dcat') \<and>
     length (x_cont ex) = length (fst dc') \<and>
     (encoder_length ex \<le> int (length (fst dc')) \<longrightarrow>
        int (tensor_len y) = int (length (fst dc')) - encoder_length ex)"
proof -
  from getitem_Inr [OF g] obtain data_cont data_cat enc dec dc' dcat' enc' dec' cat_store tc
      features features' cont_store where
    fw: "filled_window h self idx = Inr (data_cont, data_cat)" and
    wl: "window_lengths self (fst data_cat) = Inr (enc, dec)" and
    rz: "if randomize_length self = None
      then (dc', dcat', enc', dec', cat_store) = (data_cont, data_cat, enc, dec, snd (data self))
      else randomize self draws (data_cont, data_cat, enc, dec) = Inr (dc', dcat', enc', dec', cat_store)" and
    fa: "final_asserts self (fst dcat') enc' dec' = Inr ()" and
    sp: "split_target self (fst dc') = Inr (tc, features)" and
    rt: "relative_time_idx h self (features, snd dc') enc' dec' = Inr (features', cont_store)" and
    ex: "ex = \<lparr>x_cat = map (py_slice 0 (- 1)) (fst dcat'), x_cont = features',
            encoder_length = enc',
            encoder_target = tensor_take enc' (case tc of Some t \<Rightarrow> T1 t | None \<Rightarrow> T2 features')\<rparr>" and
    y: "y = tensor_drop enc' (case tc of Some t \<Rightarrow> T1 t | None \<Rightarrow> T2 features')"
    by blast
  have e: "encoder_length ex = enc'" using ex by simp
  have l1: "length features' = length (fst dc')"
    using split_target_length [OF sp] relative_time_idx_length [OF rt] by simp
  have l2: "tensor_len (case tc of Some t \<Rightarrow> T1 t | None \<Rightarrow> T2 features') = length (fst dc')"
    using split_target_length [OF sp] l1 by (cases tc) (auto simp: tensor_len_def)
  have pos: "0 < dec'" "0 \<le> enc'" using final_asserts_Inr [OF fa] by auto
  have "enc' \<le> int (length (fst dc')) \<longrightarrow> int (tensor_len y) = int (length (fst dc')) - enc'"
    using tensor_len_drop [of enc' "case tc of Some t \<Rightarrow> T1 t | None \<Rightarrow> T2 features'"] pos l2 y
    by simp
  with fw wl rz pos l1 e ex show ?thesis
    apply (rule_tac x = data_cont in exI)
    apply (rule_tac x = data_cat in exI)
    apply (rule_tac x = enc in exI)
    apply (rule_tac x = dec in exI)
    apply (rule_tac x = dc' in exI)
    apply (rule_tac x = dcat' in exI)
    apply (rule_tac x = dec' in exI)
    apply (rule_tac x = cat_store in exI)
    by (simp split: if_splits)
qed


lemma collect_Inl: "collect ms = Inl e \<Longrightarrow> Inl e \<in> set ms"
  by (induction ms) (auto split: sum.splits)


lemma py_index_Inl: "py_index xs i = Inl e \<Longrightarrow> e = IndexError"
  by (auto simp: py_index_def Let_def split: if_splits)


lemma take_rows_Inl: "take_rows xs indices = Inl e \<Longrightarrow> e = IndexError"
  unfolding take_rows_def by (auto dest!: collect_Inl py_index_Inl [OF sym])


lemma time_column_Inl: "time_column rows = Inl e \<Longrightarrow> e = IndexError"
  unfolding time_column_def by (auto dest!: collect_Inl py_index_Inl [OF sym])

lemma fill_constants_Inl:
  "fill_constants rs m items rows = Inl e \<Longrightarrow> e \<in> {ValueError, TypeError, IndexError}"
proof (induction items arbitrary: rows)
  case Nil
  then show ?case by simp
next
  case (Cons it items)
  obtain name v where it: "it = (name, v)" by (cases it)
  from Cons.prems it Cons.IH show ?case
    by (auto simp: and_then_def set_masked_def split: option.splits val.splits sum.splits if_splits)
qed


lemma filled_window_Inl:
  assumes "filled_window h self idx = Inl e"
  shows "e \<in> {IndexError, RuntimeError, ValueError, TypeError}"
proof -
  from assms have "window_rows self idx = Inl e \<or>
      (\<exists>w. window_rows self idx = Inr w \<and> fill_missing h self w = Inl e)"
    unfolding filled_window_def by (rule and_then_Inl)
  then show ?thesis
  proof
    assume "window_rows self idx = Inl e"
    then show ?thesis
      by (auto simp: window_rows_def dest!: and_then_Inl py_index_Inl)
  next
    assume "\<exists>w. window_rows self idx = Inr w \<and> fill_missing h self w = Inl e"
    then obtain index wc wcat where fm: "fill_missing h self (index, wc, wcat) = Inl e"
      by (metis prod_cases3)
    then show ?thesis
      by (auto simp: fill_missing_def repeat_interleave_def
            dest!: and_then_Inl time_column_Inl take_rows_Inl fill_constants_Inl
            split: if_splits)
  qed
qed


lemma window_lengths_Inl:
  "window_lengths self data_cat = Inl e \<Longrightarrow>
     e \<in> {AssertionError WindowCoversMinPrediction, AssertionError DecoderCoversMinPrediction, IndexError}"
  by (auto simp: window_lengths_def Let_def dest!: and_then_Inl py_index_Inl split: if_splits)

lemma dropout_columns_Inl: "dropout_columns self = Inl e \<Longrightarrow> e = ValueError"
  unfolding dropout_columns_def by (auto dest!: collect_Inl split: option.splits)

lemma randomize_Inl:
  "randomize self draws w = Inl e \<Longrightarrow> e \<in> {ValueError, IndexError}"
  by (cases w) (auto simp: randomize_def Let_def dest!: and_then_Inl dropout_columns_Inl split: if_splits)

lemma split_target_Inl: "split_target self rows = Inl e \<Longrightarrow> e = IndexError"
  by (auto simp: split_target_def dest!: and_then_Inl collect_Inl py_index_Inl [OF sym] split: if_splits)

lemma relative_time_idx_Inl:
  "relative_time_idx h self w enc dec = Inl e \<Longrightarrow> e \<in> {ValueError, RuntimeError, IndexError}"
  by (auto simp: relative_time_idx_def Let_def split: if_splits option.splits)

lemma final_asserts_Inl:
  "final_asserts self data_cat enc dec = Inl (AssertionError DecoderPositive) \<Longrightarrow> \<not> 0 < dec"
  by (auto simp: final_asserts_def dest!: and_then_Inl py_index_Inl split: if_splits)

lemma getitem_Inl:
  assumes "fst (getitem h self draws idx) = Inl e"
  shows "filled_window h self idx = Inl e \<or>
     (\<exists>data_cont data_cat. filled_window h self idx = Inr (data_cont, data_cat) \<and>
        (window_lengths self (fst data_cat) = Inl e \<or>
         (\<exists>enc dec. window_lengths self (fst data_cat) = Inr (enc, dec) \<and>
            ((randomize_length self \<noteq> None \<and>
              randomize self draws (data_cont, data_cat, enc, dec) = Inl e) \<or>
             (\<exists>dc' dcat' enc' dec' cs.
                (if randomize_length self = None
                 then (dc', dcat', enc', dec', cs) = (data_cont, data_cat, enc, dec, snd (data self))
                 else randomize self draws (data_cont, data_cat, enc, dec)
                        = Inr (dc', dcat', enc', dec', cs)) \<and>
                (final_asserts self (fst dcat') enc' dec' = Inl e \<or>
                 (\<exists>rows. split_target self rows = Inl e) \<or>
                 (\<exists>w. relative_time_idx h self w enc' dec' = Inl e)))))))"
  using assms
  apply (auto simp: getitem_def and_then_def split: sum.splits prod.splits if_splits)
  done

lemmas getitem_eval =
  getitem_def filled_window_def window_rows_def fill_missing_def window_lengths_def
  final_asserts_def split_target_def relative_time_idx_def and_then_def py_index_def
  py_slice_def norm_bound_def slice_view_def tensor_take_def tensor_drop_def tensor_len_def
  Let_def randomize_def write_through_def reals_def categoricals_def dropout_columns_def
  zero_columns_def time_column_def repeat_interleave_def take_rows_def
  example_heap_def example_dataset_def weighted_dataset_def randomized_dataset_def
  example_draws_def


lemma randomized_getitem:
  "fst (getitem example_heap randomized_dataset example_draws 0) =
     Inr (\<lparr>x_cat = [[], [], []], x_cont = [[10], [20], [30]],
           encoder_length = 2, encoder_target = T1 [1, 2]\<rparr>,
          T1 [3])"
  by (simp add: getitem_eval)




text \<open>
  C4. With randomization on, for draws in the binomial range: the call never fails on the
  assertion that the decoder length is positive; and an example it returns has the drawn
  lengths (the decoder draw raised to \<^verbatim>\<open>min_prediction_length\<close>) exactly when their sum is
  below the number of steps of the window, the lengths computed before the draw otherwise;
  its window is never longer than the window before the draw; its label has at least
  \<^verbatim>\<open>min_prediction_length\<close> steps.
\<close>

theorem getitem_randomized_length:
  assumes rl: "randomize_length self \<noteq> None"
      and mp: "0 < min_prediction_length self"
      and st: "length (fst (data self)) = length (snd (data self))"
      and be: "binomial_range (binomial_encoder draws)"
      and bd: "binomial_range (binomial_decoder draws)"
  shows "fst (getitem h self draws idx) \<noteq> Inl (AssertionError DecoderPositive) \<and>
     (\<forall>ex y. fst (getitem h self draws idx) = Inr (ex, y) \<longrightarrow>
        (\<exists>data_cont data_cat enc dec.
            filled_window h self idx = Inr (data_cont, data_cat) \<and>
            window_lengths self (fst data_cat) = Inr (enc, dec) \<and>
            (if binomial_encoder draws enc
                  + max (min_prediction_length self) (binomial_decoder draws dec)
                  < int (length (fst data_cat))
             then encoder_length ex = binomial_encoder draws enc \<and>
                  int (tensor_len y) = max (min_prediction_length self) (binomial_decoder draws dec)
             else encoder_length ex = enc \<and> int (tensor_len y) = dec) \<and>
            int (length (x_cat ex)) = encoder_length ex + int (tensor_len y) \<and>
            length (x_cat ex) \<le> length (fst data_cat) \<and>
            length (x_cont ex) = length (x_cat ex) \<and>
            min_prediction_length self \<le> int (tensor_len y)))"
proof (rule conjI)
  show "fst (getitem h self draws idx) \<noteq> Inl (AssertionError DecoderPositive)"
  proof
    assume a: "fst (getitem h self draws idx) = Inl (AssertionError DecoderPositive)"
    from getitem_Inl [OF a] rl obtain data_cont data_cat enc dec dc' dcat' enc' dec' cs where
      fw: "filled_window h self idx = Inr (data_cont, data_cat)" and
      wl: "window_lengths self (fst data_cat) = Inr (enc, dec)" and
      rz: "randomize self draws (data_cont, data_cat, enc, dec) = Inr (dc', dcat', enc', dec', cs)" and
      fa: "final_asserts self (fst dcat') enc' dec' = Inl (AssertionError DecoderPositive)"
      by (auto dest: filled_window_Inl window_lengths_Inl randomize_Inl split_target_Inl
            relative_time_idx_Inl)
    from window_lengths_Inr [OF wl] have s: "enc + dec = int (length (fst data_cat))" "0 \<le> enc"
      "min_prediction_length self \<le> dec" by auto
    from randomize_lengths [OF rz filled_window_rows [OF st fw] s mp be bd] s mp
    have "0 < dec'" by (auto split: if_splits)
    with final_asserts_Inl [OF fa] show False by simp
  qed
next
  show "\<forall>ex y. fst (getitem h self draws idx) = Inr (ex, y) \<longrightarrow>
        (\<exists>data_cont data_cat enc dec.
            filled_window h self idx = Inr (data_cont, data_cat) \<and>
            window_lengths self (fst data_cat) = Inr (enc, dec) \<and>
            (if binomial_encoder draws enc
                  + max (min_prediction_length self) (binomial_decoder draws dec)
                  < int (length (fst data_cat))
             then encoder_length ex = binomial_encoder draws enc \<and>
                  int (tensor_len y) = max (min_prediction_length self) (binomial_decoder draws dec)
             else encoder_length ex = enc \<and> int (tensor_len y) = dec) \<and>
            int (length (x_cat ex)) = encoder_length ex + int (tensor_len y) \<and>
            length (x_cat ex) \<le> length (fst data_cat) \<and>
            length (x_cont ex) = length (x_cat ex) \<and>
            min_prediction_length self \<le> int (tensor_len y))"
  proof (intro allI impI)
    fix ex y
    assume g: "fst (getitem h self draws idx) = Inr (ex, y)"
    from getitem_shape [OF st g] rl obtain data_cont data_cat enc dec dc' dcat' dec' cs where
      fw: "filled_window h self idx = Inr (data_cont, data_cat)" and
      wl: "window_lengths self (fst data_cat) = Inr (enc, dec)" and
      rz: "randomize self draws (data_cont, data_cat, enc, dec)
             = Inr (dc', dcat', encoder_length ex, dec', cs)" and
      xc: "length (x_cat ex) = length (fst dcat')" and
      xo: "length (x_cont ex) = length (fst dc')" and
      e0: "0 \<le> encoder_length ex" and
      y: "encoder_length ex \<le> int (length (fst dc')) \<longrightarrow>
            int (tensor_len y) = int (length (fst dc')) - encoder_length ex"
      by auto
    from window_lengths_Inr [OF wl] have s: "enc + dec = int (length (fst data_cat))" "0 \<le> enc"
      "min_prediction_length self \<le> dec" by auto
    note r = randomize_lengths [OF rz filled_window_rows [OF st fw] s mp be bd]
    from r have len: "int (length (fst dcat')) = encoder_length ex + dec'"
      "length (fst dc') = length (fst dcat')" by auto
    from r s mp have d: "min_prediction_length self \<le> dec'" by (auto split: if_splits)
    from len y d mp have ty: "int (tensor_len y) = dec'" by simp
    from r s have le: "length (fst dcat') \<le> length (fst data_cat)"
      using len by (auto split: if_splits)
    show "\<exists>data_cont data_cat enc dec.
            filled_window h self idx = Inr (data_cont, data_cat) \<and>
            window_lengths self (fst data_cat) = Inr (enc, dec) \<and>
            (if binomial_encoder draws enc
                  + max (min_prediction_length self) (binomial_decoder draws dec)
                  < int (length (fst data_cat))
             then encoder_length ex = binomial_encoder draws enc \<and>
                  int (tensor_len y) = max (min_prediction_length self) (binomial_decoder draws dec)
             else encoder_length ex = enc \<and> int (tensor_len y) = dec) \<and>
            int (length (x_cat ex)) = encoder_length ex + int (tensor_len y) \<and>
            length (x_cat ex) \<le> length (fst data_cat) \<and>
            length (x_cont ex) = length (x_cat ex) \<and>
            min_prediction_length self \<le> int (tensor_len y)"
      apply (rule_tac x = data_cont in exI)
      apply (rule_tac x = data_cat in exI)
      apply (rule_tac x = enc in exI)
      apply (rule_tac x = dec in exI)
      using fw wl r ty xc xo len le d by (simp split: if_splits)
  qed
qed

theorem getitem_randomized_length_witness:
  "randomize_length randomized_dataset \<noteq> None \<and>
   0 < min_prediction_length randomized_dataset \<and>
   length (fst (data randomized_dataset)) = length (snd (data randomized_dataset)) \<and>
   binomial_range (binomial_encoder example_draws) \<and>
   binomial_range (binomial_decoder example_draws) \<and>
   fst (getitem example_heap randomized_dataset example_draws 0)
     \<noteq> Inl (AssertionError DecoderPositive) \<and>
   (\<exists>ex y. fst (getitem example_heap randomized_dataset example_draws 0) = Inr (ex, y) \<and>
      length (x_cat ex) = 3 \<and> encoder_length ex = 2 \<and> tensor_len y = 1 \<and>
      min_prediction_length randomized_dataset \<le> int (tensor_len y))"
proof -
  have hyps: "randomize_length randomized_dataset \<noteq> None"
    "0 < min_prediction_length randomized_dataset"
    "length (fst (data randomized_dataset)) = length (snd (data randomized_dataset))"
    "binomial_range (binomial_encoder example_draws)"
    "binomial_range (binomial_decoder example_draws)"
    by (simp_all add: randomized_dataset_def example_dataset_def example_draws_def
          binomial_range_def)
  from getitem_randomized_length [OF hyps, of example_heap 0] randomized_getitem
  have "fst (getitem example_heap randomized_dataset example_draws 0)
          \<noteq> Inl (AssertionError DecoderPositive) \<and>
        min_prediction_length randomized_dataset \<le> int (tensor_len (T1 [3]))"
    by auto
  with hyps randomized_getitem show ?thesis by (simp add: tensor_len_def)
qed

text \<open>
  C5. With a weight column configured, line 370 takes \<^verbatim>\<open>data_cont[:, :-2]\<close> (all feature
  columns) as the target where line 367, without a weight, takes the last column: on the
  example with the weight column the encoder target and the label are the values of the
  feature \<^verbatim>\<open>x\<close> (10, 20 and 30, 40), not the target values (1, 2 and 3, 4) that the same
  data gives without the weight. The feature tensors hold neither target nor weight in
  both cases.
\<close>

theorem getitem_weighted_target:
  "fst (getitem example_heap weighted_dataset example_draws 0) =
     Inr (\<lparr>x_cat = [[], [], [], []], x_cont = [[10], [20], [30], [40]],
           encoder_length = 2, encoder_target = T2 [[10], [20]]\<rparr>,
          T2 [[30], [40]]) \<and>
   fst (getitem example_heap example_dataset example_draws 0) =
     Inr (\<lparr>x_cat = [[], [], [], []], x_cont = [[10], [20], [30], [40]],
           encoder_length = 2, encoder_target = T1 [1, 2]\<rparr>,
          T1 [3, 4])"
  by (simp add: getitem_eval)

section \<open>Properties of construct\_index\<close>

subsection \<open>End of the window: direct and iterative\<close>



lemma in_group_key: "in_group rows i j \<longleftrightarrow> group_key (rows ! j) = group_key (rows ! i)"
  by (simp add: in_group_def)

























subsection \<open>Predict mode\<close>





lemma filter_eq_distinct:
  "distinct gs \<Longrightarrow> filter (\<lambda>x. x = g) gs = (if g \<in> set gs then [g] else [])"
  by (induction gs) auto













lemma gappy_predict_index:
  "construct_index gap_dataset gappy_frame True =
     Inr [\<lparr>label = 10, time_first = 0, time_last = 5, time_diff_to_next = 5,
            index_start = 0, time = 0, count = 6, group_id = 0, index_end = 1,
            sequence_length = 6\<rparr>,
          \<lparr>label = 14, time_first = 5, time_last = 8, time_diff_to_next = 1,
            index_start = 2, time = 5, count = 4, group_id = 1, index_end = 4,
            sequence_length = 4\<rparr>]"
  by code_simp



end
